theory Spec2Isabelle
  imports Complex_Main "HOL-Library.Sublist" "HOL-Library.AList"
begin

section \<open>Values, errors and records of \<open>plugins/rocketpool.py\<close>\<close>

text \<open>
  The plugin is a class \<open>RocketPool\<close> with five mutable attributes that matter to the
  pipeline (\<open>loaded\<close>, \<open>tnx_cache\<close>, \<open>contracts\<close>, \<open>events\<close>, \<open>mapping\<close>), a
  constructor that builds them from the configuration, \<open>create_embed\<close>, the poll
  \<open>check_for_new_events\<close> and the periodic driver \<open>run_loop\<close>. Everything the class asks
  of the outside world (the node, the files, ENS, the chat platform, the templates) is a field
  of the record \<open>env\<close>: a call either returns a value or raises, which is \<open>Inl\<close> of an
  \<open>error\<close>. The helpers \<open>short_hex\<close> (\<open>utils.shorten\<close>) and \<open>_\<close> (\<open>strings\<close>) are imported
  from modules outside this file and are fields of \<open>env\<close> too (\<open>short_hex\<close>, \<open>translate\<close>).

  Two idealisations are made and kept in mind throughout. Python computes \<open>/\<close> in binary
  floating point; the model keeps the exact quotient as a rational. A \<open>HexBytes\<close> value is
  held as its hexadecimal text, so \<open>.hex()\<close> is the identity.
\<close>

type_synonym address = string
type_synonym hexbytes = string

datatype pyval = VInt int | VBool bool | VStr string | VBytes string | VFloat rat

text \<open>
  \<open>Cancelled\<close> stands for the exceptions that do not derive from \<open>Exception\<close>
  (\<open>asyncio.CancelledError\<close>, \<open>KeyboardInterrupt\<close>): \<open>except Exception\<close> lets them pass.
\<close>

datatype error = KeyError string | TypeError | Failure string | Cancelled

fun is_Exception :: "error \<Rightarrow> bool" where
  "is_Exception Cancelled = False"
| "is_Exception _ = True"

datatype contract = Contract address string

datatype event_filter = EventFilter nat

datatype channel = DefaultChannel | OdaoChannel

type_synonym pyargs = "(string \<times> pyval) list"

record raw_event =
  address :: address
  event :: string
  args :: pyargs
  blockNumber :: int
  transactionIndex :: int
  transactionHash :: hexbytes

record discord_embed =
  footer :: "string option \<times> string option"
  title :: string
  description :: string
  field_list :: "(string \<times> string \<times> bool) list"

record message =
  score :: rat
  embed :: discord_embed
  event_name :: string

record config =
  storage_name :: string
  storage_address :: address
  sources :: "(string \<times> (string \<times> string) list) list"

record state =
  loaded :: bool
  tnx_cache :: "hexbytes list"
  contracts :: "address \<rightharpoonup> contract"
  events :: "event_filter list"
  mapping :: "address \<rightharpoonup> (string \<rightharpoonup> string)"

record env =
  getenv :: "string \<Rightarrow> string option"
  connect_w3 :: "error option"
  load_config :: "error + config"
  read_abi :: "string \<Rightarrow> error + string"
  storage_getAddress :: "string \<Rightarrow> error + address"
  createFilter :: "contract \<Rightarrow> string \<Rightarrow> error + event_filter"
  get_new_entries :: "event_filter \<Rightarrow> error + raw_event list"
  getMinipoolPubkey :: "contract \<Rightarrow> pyval \<Rightarrow> error + pyval"
  getMessage :: "contract \<Rightarrow> pyval \<Rightarrow> error + pyval"
  getVotesFor :: "contract \<Rightarrow> pyval \<Rightarrow> error + int"
  getVotesAgainst :: "contract \<Rightarrow> pyval \<Rightarrow> error + int"
  getMemberID :: "contract \<Rightarrow> pyval \<Rightarrow> error + string"
  barh_string :: "int \<Rightarrow> int \<Rightarrow> error + string"
  isAddress :: "string \<Rightarrow> bool"
  ens_name :: "string \<Rightarrow> error + string option"
  short_hex :: "pyval \<Rightarrow> error + string"
  translate :: "string \<Rightarrow> pyargs \<Rightarrow> error + string"
  repr_bytes :: "string \<Rightarrow> string"
  repr_float :: "rat \<Rightarrow> string"
  fetch_channel :: "channel \<Rightarrow> error option"
  channel_send :: "nat \<Rightarrow> channel \<Rightarrow> discord_embed \<Rightarrow> error option"

record outcome =
  new_state :: state
  sent :: "(channel \<times> message) list"
  raised :: "error option"

record tick =
  state_after :: state
  delivered :: "(channel \<times> message) list"
  logged :: "error list"
  propagated :: "error option"

section \<open>Python primitives\<close>

text \<open>Sequencing of calls that may raise.\<close>

definition bind :: "error + 'a \<Rightarrow> ('a \<Rightarrow> error + 'b) \<Rightarrow> error + 'b" where
  "bind m f = (case m of Inl e \<Rightarrow> Inl e | Inr x \<Rightarrow> f x)"

text \<open>
  A \<open>for\<close> loop whose body updates an accumulator and may raise: the accumulator reached
  when the exception leaves the loop is kept, as the mutated attributes are in Python.
\<close>

fun for_each :: "('a \<Rightarrow> 'x \<Rightarrow> 'a \<times> error option) \<Rightarrow> 'a \<Rightarrow> 'x list \<Rightarrow> 'a \<times> error option" where
  "for_each body acc [] = (acc, None)"
| "for_each body acc (x # xs) =
     (case body acc x of
        (acc', Some err) \<Rightarrow> (acc', Some err)
      | (acc', None) \<Rightarrow> for_each body acc' xs)"

text \<open>\<open>kw in s\<close> on strings.\<close>

definition contains :: "string \<Rightarrow> string \<Rightarrow> bool" where
  "contains s kw = sublist kw s"

text \<open>\<open>str.lower\<close>, on the ASCII letters.\<close>

definition lower_char :: "char \<Rightarrow> char" where
  "lower_char c =
     (case map_of (zip ''ABCDEFGHIJKLMNOPQRSTUVWXYZ'' ''abcdefghijklmnopqrstuvwxyz'') c of
        None \<Rightarrow> c
      | Some l \<Rightarrow> l)"

definition lower :: "string \<Rightarrow> string" where
  "lower s = map lower_char s"

text \<open>\<open>d[k]\<close> raises \<open>KeyError\<close> on a missing key; \<open>d[k] = v\<close> is \<open>AList.update\<close>.\<close>

definition getitem :: "pyargs \<Rightarrow> string \<Rightarrow> error + pyval" where
  "getitem d k = (case map_of d k of None \<Rightarrow> Inl (KeyError k) | Some v \<Rightarrow> Inr v)"

text \<open>Truth value of an object.\<close>

fun truthy :: "pyval \<Rightarrow> bool" where
  "truthy (VInt i) = (i \<noteq> 0)"
| "truthy (VBool b) = b"
| "truthy (VStr s) = (s \<noteq> [])"
| "truthy (VBytes b) = (b \<noteq> [])"
| "truthy (VFloat r) = (r \<noteq> 0)"

text \<open>\<open>str(n)\<close> for an integer, in decimal.\<close>

fun str_nat :: "nat \<Rightarrow> string" where
  "str_nat n =
     (if n < 10 then [''0123456789'' ! n]
      else str_nat (n div 10) @ [''0123456789'' ! (n mod 10)])"

definition str_int :: "int \<Rightarrow> string" where
  "str_int i = (if i < 0 then CHR ''-'' # str_nat (nat (- i)) else str_nat (nat i))"

text \<open>\<open>str(v)\<close>; the \<open>repr\<close> of bytes and of floats is left to the environment.\<close>

fun py_str :: "env \<Rightarrow> pyval \<Rightarrow> string" where
  "py_str env (VInt i) = str_int i"
| "py_str env (VBool b) = (if b then ''True'' else ''False'')"
| "py_str env (VStr s) = s"
| "py_str env (VBytes b) = repr_bytes env b"
| "py_str env (VFloat r) = repr_float env r"

text \<open>
  \<open>str(v).startswith("0x")\<close>. The text of an integer, a boolean, a float or a bytes object
  (\<open>b'...'\<close>) never begins with \<open>0x\<close>, so only a string can pass.
\<close>

fun str_startswith_0x :: "pyval \<Rightarrow> bool" where
  "str_startswith_0x (VStr s) = prefix ''0x'' s"
| "str_startswith_0x _ = False"

text \<open>\<open>v / 10 ** 18\<close>: true division, defined on numbers (a boolean is an integer).\<close>

fun truediv_1e18 :: "pyval \<Rightarrow> error + pyval" where
  "truediv_1e18 (VInt i) = Inr (VFloat (of_int i / 10 ^ 18))"
| "truediv_1e18 (VBool b) = Inr (VFloat ((if b then 1 else 0) / 10 ^ 18))"
| "truediv_1e18 (VFloat r) = Inr (VFloat (r / 10 ^ 18))"
| "truediv_1e18 (VStr s) = Inl TypeError"
| "truediv_1e18 (VBytes b) = Inl TypeError"

text \<open>\<open>xs[-1000:]\<close>: the last 1000 elements, all of them when there are fewer.\<close>

definition last_1000 :: "'a list \<Rightarrow> 'a list" where
  "last_1000 xs = drop (length xs - 1000) xs"

section \<open>The constructor\<close>

text \<open>
  \<open>get_address_from_storage_contract\<close> hashes \<open>("contract.address", name)\<close> and asks the
  storage contract; the answer is the environment's.
\<close>

definition get_address_from_storage_contract :: "env \<Rightarrow> string \<Rightarrow> error + address" where
  "get_address_from_storage_contract env name = storage_getAddress env name"

text \<open>One filter per event of a source (lines 46 to 48).\<close>

definition add_filter :: "env \<Rightarrow> contract \<Rightarrow> state \<Rightarrow> string \<Rightarrow> state \<times> error option" where
  "add_filter env c s ev =
     (case createFilter env c ev of
        Inl e \<Rightarrow> (s, Some e)
      | Inr f \<Rightarrow> (s\<lparr>events := events s @ [f]\<rparr>, None))"

text \<open>
  The body of the loop over \<open>config["sources"].items()\<close> (lines 42 to 49). A source's events
  are a dictionary from the event type to its display name, held here as an association list;
  iterating it yields its keys.
\<close>

definition load_source ::
  "env \<Rightarrow> state \<Rightarrow> string \<times> (string \<times> string) list \<Rightarrow> state \<times> error option" where
  "load_source env s src =
     (case src of (name, evs) \<Rightarrow>
        (case get_address_from_storage_contract env name of
           Inl e \<Rightarrow> (s, Some e)
         | Inr addr \<Rightarrow>
             (case read_abi env name of
                Inl e \<Rightarrow> (s, Some e)
              | Inr abi \<Rightarrow>
                  (case for_each (add_filter env (Contract addr abi))
                          (s\<lparr>contracts := (contracts s)(addr \<mapsto> Contract addr abi)\<rparr>)
                          (map fst evs) of
                     (s2, Some e) \<Rightarrow> (s2, Some e)
                   | (s2, None) \<Rightarrow>
                       (s2\<lparr>mapping := (mapping s2)(addr \<mapsto> map_of evs)\<rparr>, None)))))"

text \<open>
  \<open>__init__\<close>: the five attributes are assigned afresh before anything can raise, so the
  object it is called on does not matter. The pair is the object as the constructor leaves it
  and the exception that ended it, if any. Starting the periodic task (lines 50 and 51) is the
  scheduler's business and is left out.
\<close>

definition init :: "env \<Rightarrow> state \<times> error option" where
  "init env =
     (let s0 = \<lparr>loaded = True, tnx_cache = [], contracts = Map.empty, events = [],
                mapping = Map.empty\<rparr>
      in case connect_w3 env of
           Some e \<Rightarrow> (s0, Some e)
         | None \<Rightarrow>
             (case load_config env of
                Inl e \<Rightarrow> (s0, Some e)
              | Inr cfg \<Rightarrow>
                  (case read_abi env (storage_name cfg) of
                     Inl e \<Rightarrow> (s0, Some e)
                   | Inr abi \<Rightarrow> for_each (load_source env) s0 (sources cfg))))"

section \<open>Enrichment: \<open>create_embed\<close>\<close>

definition get_pubkey_from_minipool :: "env \<Rightarrow> state \<Rightarrow> raw_event \<Rightarrow> error + pyval" where
  "get_pubkey_from_minipool env s ev =
     (case contracts s (address ev) of
        None \<Rightarrow> Inl (KeyError (address ev))
      | Some c \<Rightarrow> bind (getitem (args ev) ''minipool'') (getMinipoolPubkey env c))"

definition get_proposal_info ::
  "env \<Rightarrow> state \<Rightarrow> raw_event \<Rightarrow> error + (pyval \<times> int \<times> int)" where
  "get_proposal_info env s ev =
     (case contracts s (address ev) of
        None \<Rightarrow> Inl (KeyError (address ev))
      | Some c \<Rightarrow>
          bind (getitem (args ev) ''proposalID'') (\<lambda>pid.
          bind (getMessage env c pid) (\<lambda>msg.
          bind (getVotesFor env c pid) (\<lambda>vf.
          bind (getVotesAgainst env c pid) (\<lambda>va.
          Inr (msg, vf div 10 ^ 18, va div 10 ^ 18))))))"

definition get_dao_member_name :: "env \<Rightarrow> pyval \<Rightarrow> error + string" where
  "get_dao_member_name env member_address =
     bind (get_address_from_storage_contract env ''rocketDAONodeTrusted'') (\<lambda>addr.
     bind (read_abi env ''rocketDAONodeTrusted'') (\<lambda>abi.
     getMemberID env (Contract addr abi) member_address))"

text \<open>Lines 92 to 98: the proposal's message and the bar graph of its votes.\<close>

definition add_proposal ::
  "env \<Rightarrow> state \<Rightarrow> string \<Rightarrow> raw_event \<Rightarrow> pyargs \<Rightarrow> error + pyargs" where
  "add_proposal env s name ev a =
     (if contains name ''proposal'' then
        bind (get_proposal_info env s ev) (\<lambda>(msg, vf, va).
        bind (barh_string env vf va) (\<lambda>graph.
        Inr (AList.update ''vote_graph'' (VStr graph) (AList.update ''message'' msg a))))
      else Inr a)"

text \<open>Lines 101 and 102.\<close>

definition add_decision :: "pyargs \<Rightarrow> pyargs" where
  "add_decision a =
     (case map_of a ''supported'' of
        None \<Rightarrow> a
      | Some v \<Rightarrow> AList.update ''decision'' (VStr (if truthy v then ''for'' else ''against'')) a)"

text \<open>Lines 109 to 114: the link put under \<open>key_fancy\<close> for a value that reads \<open>0x...\<close>.\<close>

definition fancy_link :: "env \<Rightarrow> string \<Rightarrow> error + string" where
  "fancy_link env v =
     bind (if isAddress env v then ens_name env v else Inr (Some [])) (\<lambda>name.
     bind (case name of
             None \<Rightarrow> short_hex env (VStr v)
           | Some n \<Rightarrow> if n = [] then short_hex env (VStr v) else Inr n) (\<lambda>name'.
     Inr (''['' @ name' @ ''](https://goerli.etherscan.io/search?q='' @ v @ '')'')))"

text \<open>The test of line 105 on a key: \<open>any(keyword in arg_key.lower() for keyword in ...)\<close>.\<close>

definition is_amount :: "string \<Rightarrow> bool" where
  "is_amount k = list_ex (contains (lower k)) [''amount'', ''value'']"

text \<open>
  The body of the loop over \<open>list(args.items())\<close> (lines 104 to 114): \<open>a\<close> is the dictionary
  being updated, the pair comes from the snapshot taken before the loop.
\<close>

definition enrich_arg :: "env \<Rightarrow> pyargs \<Rightarrow> string \<times> pyval \<Rightarrow> pyargs \<times> error option" where
  "enrich_arg env a kv =
     (case kv of (arg_key, arg_value) \<Rightarrow>
        (case (if is_amount arg_key then
                 (case truediv_1e18 arg_value of
                    Inl e \<Rightarrow> (a, Some e)
                  | Inr q \<Rightarrow> (AList.update arg_key q a, None))
               else (a, None)) of
           (a1, Some e) \<Rightarrow> (a1, Some e)
         | (a1, None) \<Rightarrow>
             (if str_startswith_0x arg_value then
                (case fancy_link env (py_str env arg_value) of
                   Inl e \<Rightarrow> (a1, Some e)
                 | Inr link \<Rightarrow> (AList.update (arg_key @ ''_fancy'') (VStr link) a1, None))
              else (a1, None))))"

text \<open>Lines 117 to 125: the oDAO member behind the first of five keys that is present.\<close>

definition add_member :: "env \<Rightarrow> string \<Rightarrow> pyargs \<Rightarrow> error + pyargs" where
  "add_member env name a =
     (if contains name ''odao'' then
        (case filter (\<lambda>key. map_of a key \<noteq> None)
                [''nodeAddress'', ''canceller'', ''executer'', ''proposer'', ''voter''] of
           [] \<Rightarrow> Inr a
         | key # _ \<Rightarrow>
             bind (getitem a key) (\<lambda>v.
             bind (get_dao_member_name env v) (\<lambda>member.
             if member \<noteq> [] then
               Inr (AList.update ''member_fancy''
                     (VStr (''['' @ member @ ''](https://goerli.etherscan.io/search?q=''
                            @ py_str env v @ '')'')) a)
             else
               bind (getitem a (key @ ''_fancy'')) (\<lambda>f.
               Inr (AList.update ''member_fancy'' f a)))))
      else Inr a)"

text \<open>
  Lines 82 to 125 without the validator field: the dictionary \<open>args\<close> as it is handed to the
  description template.
\<close>

definition enrich_args :: "env \<Rightarrow> state \<Rightarrow> string \<Rightarrow> raw_event \<Rightarrow> error + pyargs" where
  "enrich_args env s name ev =
     bind (add_proposal env s name ev (args ev)) (\<lambda>a1.
       (case for_each (enrich_arg env) (add_decision a1) (add_decision a1) of
          (a3, Some e) \<Rightarrow> Inl e
        | (a3, None) \<Rightarrow> add_member env name a3))"

definition validator_field ::
  "env \<Rightarrow> state \<Rightarrow> string \<Rightarrow> raw_event \<Rightarrow> error + (string \<times> string \<times> bool) list" where
  "validator_field env s name ev =
     (if contains name ''minipool'' then
        bind (get_pubkey_from_minipool env s ev) (\<lambda>pubkey.
        bind (short_hex env pubkey) (\<lambda>short.
        Inr [(''validator'',
              ''['' @ short @ ''](https://prater.beaconcha.in/validator/''
                @ py_str env pubkey @ '')'',
              False)]))
      else Inr [])"

definition sender_field :: "env \<Rightarrow> pyargs \<Rightarrow> error + (string \<times> string \<times> bool) list" where
  "sender_field env a =
     (if map_of a ''from'' \<noteq> None then
        bind (getitem a ''from_fancy'') (\<lambda>v. Inr [(''Sender Address'', py_str env v, True)])
      else Inr [])"

definition create_embed :: "env \<Rightarrow> state \<Rightarrow> string \<Rightarrow> raw_event \<Rightarrow> error + discord_embed" where
  "create_embed env s name ev =
     bind (validator_field env s name ev) (\<lambda>validator.
     bind (enrich_args env s name ev) (\<lambda>a.
     bind (translate env (''rocketpool.'' @ name @ ''.title'') []) (\<lambda>t.
     bind (translate env (''rocketpool.'' @ name @ ''.description'') a) (\<lambda>d.
     bind (short_hex env (VStr (transactionHash ev))) (\<lambda>short.
     bind (sender_field env a) (\<lambda>sender.
     Inr \<lparr>footer = (getenv env ''CREDITS'', getenv env ''CREDITS_ICON''),
          title = t,
          description = d,
          field_list =
            validator
            @ [(''Transaction Hash'',
                ''['' @ short @ ''](https://goerli.etherscan.io/tx/'' @ transactionHash ev @ '')'',
                True)]
            @ sender
            @ [(''Block Number'',
                ''['' @ str_int (blockNumber ev) @ ''](https://goerli.etherscan.io/block/''
                  @ str_int (blockNumber ev) @ '')'',
                True)]\<rparr>))))))"

section \<open>The poll: \<open>check_for_new_events\<close>\<close>

text \<open>\<open>blockNumber + transactionIndex / 1000\<close> (line 176).\<close>

definition event_score :: "raw_event \<Rightarrow> rat" where
  "event_score ev = of_int (blockNumber ev) + of_int (transactionIndex ev) / 1000"

text \<open>
  The body of the inner loop (lines 166 to 188), on the pair of the local \<open>messages\<close> and
  \<open>self.tnx_cache\<close>.
\<close>

definition process_event ::
  "env \<Rightarrow> state \<Rightarrow> message list \<times> hexbytes list \<Rightarrow> raw_event
     \<Rightarrow> (message list \<times> hexbytes list) \<times> error option" where
  "process_event env s acc ev =
     (case acc of (messages, cache) \<Rightarrow>
        (case mapping s (address ev) of
           None \<Rightarrow> (acc, Some (KeyError (address ev)))
         | Some names \<Rightarrow>
             (case names (event ev) of
                None \<Rightarrow> (acc, None)
              | Some name \<Rightarrow>
                  (if transactionHash ev \<in> set cache then (acc, None)
                   else
                     (case create_embed env s name ev of
                        Inl e \<Rightarrow> (acc, Some e)
                      | Inr emb \<Rightarrow>
                          ((messages @ [\<lparr>score = event_score ev, embed = emb,
                                         event_name = name\<rparr>],
                            cache @ [transactionHash ev]),
                           None))))))"

text \<open>The body of the outer loop (lines 164 and 165): one filter, newest entry first.\<close>

definition poll_filter ::
  "env \<Rightarrow> state \<Rightarrow> message list \<times> hexbytes list \<Rightarrow> event_filter
     \<Rightarrow> (message list \<times> hexbytes list) \<times> error option" where
  "poll_filter env s acc f =
     (case get_new_entries env f of
        Inl e \<Rightarrow> (acc, Some e)
      | Inr entries \<Rightarrow> for_each (process_event env s) acc (rev entries))"

text \<open>
  The body of the dispatch loop (lines 194 to 197). The accumulator is what has been sent so
  far; the environment answers the \<open>n\<close>-th send of the poll.
\<close>

definition channel_of :: "message \<Rightarrow> channel" where
  "channel_of m = (if contains (event_name m) ''odao'' then OdaoChannel else DefaultChannel)"

definition send_message ::
  "env \<Rightarrow> (channel \<times> message) list \<Rightarrow> message \<Rightarrow> (channel \<times> message) list \<times> error option" where
  "send_message env out m =
     (case channel_send env (length out) (channel_of m) (embed m) of
        Some e \<Rightarrow> (out, Some e)
      | None \<Rightarrow> (out @ [(channel_of m, m)], None))"

text \<open>Lines 160 to 189: both loops, from no messages and the cache as it stands.\<close>

definition collect :: "env \<Rightarrow> state \<Rightarrow> (message list \<times> hexbytes list) \<times> error option" where
  "collect env s = for_each (poll_filter env s) ([], tnx_cache s) (events s)"

text \<open>Lines 193 to 197: \<open>sorted\<close> is stable, as \<open>sort_key\<close> is.\<close>

definition dispatch :: "env \<Rightarrow> message list \<Rightarrow> (channel \<times> message) list \<times> error option" where
  "dispatch env messages = for_each (send_message env) [] (sort_key score messages)"

definition check_for_new_events :: "env \<Rightarrow> state \<Rightarrow> outcome" where
  "check_for_new_events env s =
     (if \<not> loaded s then \<lparr>new_state = s, sent = [], raised = None\<rparr>
      else
        (case collect env s of
           ((messages, cache), Some e) \<Rightarrow>
             \<lparr>new_state = s\<lparr>tnx_cache := cache\<rparr>, sent = [], raised = Some e\<rparr>
         | ((messages, cache), None) \<Rightarrow>
             (case fetch_channel env DefaultChannel of
                Some e \<Rightarrow> \<lparr>new_state = s\<lparr>tnx_cache := cache\<rparr>, sent = [], raised = Some e\<rparr>
              | None \<Rightarrow>
                  (case fetch_channel env OdaoChannel of
                     Some e \<Rightarrow>
                       \<lparr>new_state = s\<lparr>tnx_cache := cache\<rparr>, sent = [], raised = Some e\<rparr>
                   | None \<Rightarrow>
                       (case dispatch env messages of
                          (out, Some e) \<Rightarrow>
                            \<lparr>new_state = s\<lparr>tnx_cache := cache\<rparr>, sent = out,
                             raised = Some e\<rparr>
                        | (out, None) \<Rightarrow>
                            \<lparr>new_state = s\<lparr>tnx_cache := last_1000 cache\<rparr>, sent = out,
                             raised = None\<rparr>)))))"

section \<open>The supervisor: \<open>run_loop\<close>\<close>

text \<open>
  Lines 149 to 153: the constructor is run again on the object; an \<open>Exception\<close> it raises is
  logged and \<open>loaded\<close> is cleared.
\<close>

definition reinit :: "env \<Rightarrow> (channel \<times> message) list \<Rightarrow> error list \<Rightarrow> tick" where
  "reinit env out errs =
     (case init env of
        (s', None) \<Rightarrow>
          \<lparr>state_after = s', delivered = out, logged = errs, propagated = None\<rparr>
      | (s', Some e) \<Rightarrow>
          (if is_Exception e then
             \<lparr>state_after = s'\<lparr>loaded := False\<rparr>, delivered = out, logged = errs @ [e],
              propagated = None\<rparr>
           else \<lparr>state_after = s', delivered = out, logged = errs, propagated = Some e\<rparr>))"

text \<open>
  One tick (lines 141 to 153). After the first \<open>except\<close> clause control falls through to the
  second \<open>try\<close>.
\<close>

definition run_loop :: "env \<Rightarrow> state \<Rightarrow> tick" where
  "run_loop env s =
     (if loaded s then
        (let r = check_for_new_events env s in
         case raised r of
           None \<Rightarrow>
             \<lparr>state_after = new_state r, delivered = sent r, logged = [], propagated = None\<rparr>
         | Some e \<Rightarrow>
             (if is_Exception e then reinit env (sent r) [e]
              else \<lparr>state_after = new_state r, delivered = sent r, logged = [],
                    propagated = Some e\<rparr>))
      else reinit env [] [])"

section \<open>What a poll was given and what a message is made of\<close>



section \<open>A small deployment to run the definitions on\<close>

text \<open>
  One source, \<open>rocketDepositPool\<close>, with one event; every collaborator answers. The poll and
  the sends are left open so that each scenario can choose them.
\<close>

definition sample_config :: config where
  "sample_config =
     \<lparr>storage_name = ''rocketStorage'', storage_address = ''0xd8Cd47263414aFEca62d6e2a3917d6600abDceB3'',
      sources = [(''rocketDepositPool'', [(''DepositReceived'', ''pool_deposit_event'')])]\<rparr>"

definition sample_env ::
  "(event_filter \<Rightarrow> error + raw_event list)
     \<Rightarrow> (nat \<Rightarrow> channel \<Rightarrow> discord_embed \<Rightarrow> error option) \<Rightarrow> env" where
  "sample_env poll send =
     \<lparr>getenv = (\<lambda>_. None),
      connect_w3 = None,
      load_config = Inr sample_config,
      read_abi = (\<lambda>name. Inr ''[]''),
      storage_getAddress = (\<lambda>name. Inr (''0x'' @ name)),
      createFilter = (\<lambda>c ev. Inr (EventFilter 0)),
      get_new_entries = poll,
      getMinipoolPubkey = (\<lambda>c v. Inr (VBytes ''ab'')),
      getMessage = (\<lambda>c v. Inr (VStr ''message'')),
      getVotesFor = (\<lambda>c v. Inr 0),
      getVotesAgainst = (\<lambda>c v. Inr 0),
      getMemberID = (\<lambda>c v. Inr ''member''),
      barh_string = (\<lambda>f a. Inr ''graph''),
      isAddress = (\<lambda>v. False),
      ens_name = (\<lambda>v. Inr None),
      short_hex = (\<lambda>v. Inr ''0x..''),
      translate = (\<lambda>key a. Inr key),
      repr_bytes = (\<lambda>b. b),
      repr_float = (\<lambda>r. ''float''),
      fetch_channel = (\<lambda>c. None),
      channel_send = send\<rparr>"

text \<open>The object a successful constructor leaves on that deployment, with a given cache.\<close>

definition sample_state :: "hexbytes list \<Rightarrow> state" where
  "sample_state cache =
     \<lparr>loaded = True, tnx_cache = cache,
      contracts = [''0xrocketDepositPool'' \<mapsto> Contract ''0xrocketDepositPool'' ''[]''],
      events = [EventFilter 0],
      mapping = [''0xrocketDepositPool'' \<mapsto> [''DepositReceived'' \<mapsto> ''pool_deposit_event'']]\<rparr>"

text \<open>A deposit of one ether, mined in block \<open>block\<close> at position \<open>index\<close>.\<close>

definition deposit :: "int \<Rightarrow> int \<Rightarrow> hexbytes \<Rightarrow> raw_event" where
  "deposit block index tnx =
     \<lparr>address = ''0xrocketDepositPool'', event = ''DepositReceived'',
      args = [(''from'', VStr ''0xabc''), (''amount'', VInt (10 ^ 18))],
      blockNumber = block, transactionIndex = index, transactionHash = tnx\<rparr>"

text \<open>The message the poll builds from that deposit.\<close>

definition sample_message :: "int \<Rightarrow> int \<Rightarrow> hexbytes \<Rightarrow> message" where
  "sample_message b i h =
     \<lparr>score = of_int b + of_int i / 1000,
      embed = projr (create_embed (sample_env (\<lambda>f. Inr []) (\<lambda>n c m. None)) (sample_state [])
                ''pool_deposit_event'' (deposit b i h)),
      event_name = ''pool_deposit_event''\<rparr>"

text \<open>An entry of the same contract whose event type the configuration does not declare.\<close>

definition undeclared :: "hexbytes \<Rightarrow> raw_event" where
  "undeclared tnx = (deposit 7 2 tnx)\<lparr>event := ''DepositRecycled''\<rparr>"

text \<open>A chat platform that refuses the \<open>k\<close>-th send of a poll and accepts the others.\<close>

definition fails_at :: "nat \<Rightarrow> nat \<Rightarrow> channel \<Rightarrow> discord_embed \<Rightarrow> error option" where
  "fails_at k n c m = (if n = k then Some (Failure ''HTTPException'') else None)"

text \<open>A node whose filters cannot be polled, and one that cannot be reached at all.\<close>

definition down :: "event_filter \<Rightarrow> error + raw_event list" where
  "down f = Inl (Failure ''ConnectionClosed'')"

definition no_node :: env where
  "no_node = (sample_env down (\<lambda>n c m. None))\<lparr>connect_w3 := Some (Failure ''no route to host'')\<rparr>"


section \<open>Loops\<close>

lemma for_each_append:
  "for_each body acc (xs @ ys) =
     (case for_each body acc xs of
        (a, Some e) \<Rightarrow> (a, Some e)
      | (a, None) \<Rightarrow> for_each body a ys)"
  by (induction xs arbitrary: acc) (auto split: prod.splits option.splits)

lemma for_each_invariant:
  assumes "I acc"
    and "\<And>a x a' r. I a \<Longrightarrow> x \<in> set xs \<Longrightarrow> body a x = (a', r) \<Longrightarrow> I a'"
  shows "I (fst (for_each body acc xs))"
  using assms
proof (induction xs arbitrary: acc)
  case Nil
  then show ?case by simp
next
  case (Cons x xs)
  obtain a' r where b: "body acc x = (a', r)" by (cases "body acc x")
  have Ia': "I a'" using Cons.prems(1) Cons.prems(2)[of acc x a' r] b by simp
  show ?case
  proof (cases r)
    case None
    have "I (fst (for_each body a' xs))"
      by (rule Cons.IH[OF Ia']) (use Cons.prems(2) in auto)
    then show ?thesis using b None by simp
  next
    case (Some e)
    then show ?thesis using b Ia' by simp
  qed
qed

lemma for_each_idle:
  "\<forall>x \<in> set xs. body acc x = (acc, None) \<Longrightarrow> for_each body acc xs = (acc, None)"
  by (induction xs) auto

lemma length_last_1000: "length (last_1000 xs) \<le> 1000"
  by (simp add: last_1000_def)

lemma last_1000_short: "length xs \<le> 1000 \<Longrightarrow> last_1000 xs = xs"
  by (simp add: last_1000_def)

subsection \<open>The constructor leaves an empty cache\<close>

lemma add_filter_frame:
  "add_filter env c s ev = (s', r) \<Longrightarrow> tnx_cache s' = tnx_cache s \<and> loaded s' = loaded s"
  by (auto simp: add_filter_def split: sum.splits)

lemma add_filters_frame:
  "tnx_cache (fst (for_each (add_filter env c) s evs)) = tnx_cache s
   \<and> loaded (fst (for_each (add_filter env c) s evs)) = loaded s"
  by (rule for_each_invariant[where I = "\<lambda>a. tnx_cache a = tnx_cache s \<and> loaded a = loaded s"])
     (auto dest: add_filter_frame)

lemma load_source_frame:
  assumes "load_source env s src = (s', r)"
  shows "tnx_cache s' = tnx_cache s \<and> loaded s' = loaded s"
proof -
  obtain name evs where src: "src = (name, evs)" by (cases src)
  show ?thesis
  proof (cases "get_address_from_storage_contract env name")
    case (Inl e)
    then show ?thesis using assms src by (simp add: load_source_def)
  next
    case addr: (Inr addr)
    show ?thesis
    proof (cases "read_abi env name")
      case (Inl e)
      then show ?thesis using assms src addr by (simp add: load_source_def)
    next
      case abi: (Inr abi)
      let ?s1 = "s\<lparr>contracts := (contracts s)(addr \<mapsto> Contract addr abi)\<rparr>"
      let ?r = "for_each (add_filter env (Contract addr abi)) ?s1 (map fst evs)"
      have fr: "tnx_cache (fst ?r) = tnx_cache s \<and> loaded (fst ?r) = loaded s"
        using add_filters_frame[of env "Contract addr abi" ?s1 "map fst evs"] by simp
      show ?thesis
        using assms src addr abi fr
        by (cases ?r) (auto simp: load_source_def split: option.splits)
    qed
  qed
qed

lemma init_fresh: "tnx_cache (fst (init env)) = [] \<and> loaded (fst (init env))"
proof -
  let ?s0 = "\<lparr>loaded = True, tnx_cache = [], contracts = Map.empty, events = [],
              mapping = Map.empty\<rparr>"
  have "tnx_cache (fst (for_each (load_source env) ?s0 xs)) = [] \<and>
        loaded (fst (for_each (load_source env) ?s0 xs))" for xs
    by (rule for_each_invariant[where I = "\<lambda>a. tnx_cache a = [] \<and> loaded a"])
       (auto dest: load_source_frame)
  then show ?thesis
    by (auto simp: init_def Let_def split: option.splits sum.splits)
qed

lemma reinit_cache: "tnx_cache (state_after (reinit env out errs)) = []"
  using init_fresh[of env]
  by (cases "init env") (auto simp: reinit_def split: option.splits)


section \<open>Evaluating the small deployment\<close>

lemmas create_embed_defs =
  create_embed_def validator_field_def enrich_args_def add_proposal_def add_decision_def
  enrich_arg_def is_amount_def fancy_link_def add_member_def sender_field_def getitem_def
  bind_def contains_def sublist_Cons_right lower_def lower_char_def str_int_def

lemma sample_embed:
  "create_embed (sample_env p sn) (sample_state c) ''pool_deposit_event'' (deposit b i h) =
     Inr \<lparr>footer = (None, None),
          title = ''rocketpool.pool_deposit_event.title'',
          description = ''rocketpool.pool_deposit_event.description'',
          field_list =
            [(''Transaction Hash'', ''[0x..](https://goerli.etherscan.io/tx/'' @ h @ '')'', True),
             (''Sender Address'', ''[0x..](https://goerli.etherscan.io/search?q=0xabc)'', True),
             (''Block Number'',
              ''['' @ str_int b @ ''](https://goerli.etherscan.io/block/'' @ str_int b @ '')'',
              True)]\<rparr>"
  by (simp add: create_embed_defs sample_env_def sample_state_def deposit_def)

lemma sample_env_sel:
  "get_new_entries (sample_env p sn) = p"
  "fetch_channel (sample_env p sn) = (\<lambda>c. None)"
  "channel_send (sample_env p sn) = sn"
  by (simp_all add: sample_env_def)

lemma sample_state_sel:
  "loaded (sample_state c)"
  "tnx_cache (sample_state c) = c"
  "events (sample_state c) = [EventFilter 0]"
  "mapping (sample_state c) ''0xrocketDepositPool'' =
     Some [''DepositReceived'' \<mapsto> ''pool_deposit_event'']"
  "sample_state c\<lparr>tnx_cache := c'\<rparr> = sample_state c'"
  by (simp_all add: sample_state_def)

lemma deposit_sel:
  "address (deposit b i h) = ''0xrocketDepositPool''"
  "event (deposit b i h) = ''DepositReceived''"
  "transactionHash (deposit b i h) = h"
  "event_score (deposit b i h) = of_int b + of_int i / 1000"
  by (simp_all add: deposit_def event_score_def)

lemma sample_process:
  "h \<notin> set c \<Longrightarrow>
   process_event (sample_env p sn) (sample_state c0) (ms, c) (deposit b i h) =
     ((ms @ [sample_message b i h], c @ [h]), None)"
  by (simp add: process_event_def sample_embed sample_state_sel deposit_sel sample_message_def)

lemma sample_skip:
  "h \<in> set c \<Longrightarrow>
   process_event (sample_env p sn) (sample_state c0) (ms, c) (deposit b i h) = ((ms, c), None)"
  by (simp add: process_event_def sample_state_sel deposit_sel)

lemma sample_message_sel:
  "score (sample_message b i h) = of_int b + of_int i / 1000"
  "channel_of (sample_message b i h) = DefaultChannel"
  by (simp_all add: sample_message_def channel_of_def contains_def sublist_Cons_right)


section \<open>Polling a quiet source\<close>

lemma collect_idle:
  assumes "\<forall>f \<in> set (events s). get_new_entries env f = Inr []"
  shows "collect env s = (([], tnx_cache s), None)"
  unfolding collect_def
  by (rule for_each_idle) (use assms in \<open>simp add: poll_filter_def\<close>)

lemma dispatch_Nil: "dispatch env [] = ([], None)"
  by (simp add: dispatch_def)

lemma check_idle:
  assumes "\<forall>f \<in> set (events s). get_new_entries env f = Inr []"
    and "length (tnx_cache s) \<le> 1000"
  shows "sent (check_for_new_events env s) = [] \<and> new_state (check_for_new_events env s) = s"
  using assms
  by (simp add: check_for_new_events_def collect_idle dispatch_Nil last_1000_short
      split: option.splits)


text \<open>
  C8. When every filter returns no new entry and the cache holds at most 1000 hashes, the
  poll sends nothing and leaves the object as it was, cache included; so does a second poll
  right after it.
\<close>

theorem empty_poll_idempotent:
  assumes "\<forall>f \<in> set (events s). get_new_entries env1 f = Inr []"
    and "\<forall>f \<in> set (events s). get_new_entries env2 f = Inr []"
    and "length (tnx_cache s) \<le> 1000"
  shows "sent (check_for_new_events env1 s) = []
    \<and> new_state (check_for_new_events env1 s) = s
    \<and> sent (check_for_new_events env2 (new_state (check_for_new_events env1 s))) = []
    \<and> new_state (check_for_new_events env2 (new_state (check_for_new_events env1 s))) = s"
  using check_idle[OF assms(1) assms(3)] check_idle[OF assms(2) assms(3)] by simp

theorem empty_poll_idempotent_witness:
  "events (sample_state [''0x01'', ''0x02'']) = [EventFilter 0]
   \<and> get_new_entries (sample_env (\<lambda>f. Inr []) (\<lambda>n c m. None)) (EventFilter 0) = Inr []
   \<and> length (tnx_cache (sample_state [''0x01'', ''0x02''])) \<le> 1000
   \<and> sent (check_for_new_events (sample_env (\<lambda>f. Inr []) (\<lambda>n c m. None))
        (sample_state [''0x01'', ''0x02''])) = []
   \<and> tnx_cache (new_state (check_for_new_events (sample_env (\<lambda>f. Inr []) (\<lambda>n c m. None))
        (new_state (check_for_new_events (sample_env (\<lambda>f. Inr []) (\<lambda>n c m. None))
           (sample_state [''0x01'', ''0x02'']))))) = [''0x01'', ''0x02'']"
  using empty_poll_idempotent
    [of "sample_state [''0x01'', ''0x02'']" "sample_env (\<lambda>f. Inr []) (\<lambda>n c m. None)"
        "sample_env (\<lambda>f. Inr []) (\<lambda>n c m. None)"]
  by (simp add: sample_state_def sample_env_def)


section \<open>The cache stays bounded\<close>

lemma process_event_cache:
  assumes "process_event env s (ms, c) ev = ((ms', c'), r)"
  shows "prefix c c'"
  using assms
  by (auto simp: process_event_def split: option.splits if_splits sum.splits)

lemma poll_filter_cache:
  assumes "poll_filter env s (ms, c) f = ((ms', c'), r)"
  shows "prefix c c'"
proof (cases "get_new_entries env f")
  case (Inl e)
  then show ?thesis using assms by (simp add: poll_filter_def)
next
  case (Inr entries)
  have "prefix c (snd (fst (for_each (process_event env s) (ms, c) (rev entries))))"
    by (rule for_each_invariant[where I = "\<lambda>a. prefix c (snd a)"])
       (auto dest: process_event_cache intro: prefix_order.trans)
  then show ?thesis using assms Inr by (simp add: poll_filter_def)
qed

lemma collect_cache: "prefix (tnx_cache s) (snd (fst (collect env s)))"
  unfolding collect_def
  by (rule for_each_invariant[where I = "\<lambda>a. prefix (tnx_cache s) (snd a)"])
     (auto dest: poll_filter_cache intro: prefix_order.trans)

lemma check_completed_cache:
  assumes "loaded s" "raised (check_for_new_events env s) = None"
  shows "tnx_cache (new_state (check_for_new_events env s)) =
           last_1000 (snd (fst (collect env s)))"
  using assms
  by (auto simp: check_for_new_events_def split: prod.splits option.splits)

lemma run_loop_completed:
  assumes "loaded s" "raised (check_for_new_events env s) = None"
  shows "run_loop env s =
    \<lparr>state_after = new_state (check_for_new_events env s),
     delivered = sent (check_for_new_events env s), logged = [], propagated = None\<rparr>"
  using assms by (simp add: run_loop_def Let_def)

lemma run_loop_failed:
  assumes "loaded s" "raised (check_for_new_events env s) = Some e" "is_Exception e"
  shows "run_loop env s = reinit env (sent (check_for_new_events env s)) [e]"
  using assms by (simp add: run_loop_def Let_def)

lemma run_loop_cancelled:
  assumes "loaded s" "raised (check_for_new_events env s) = Some e" "\<not> is_Exception e"
  shows "propagated (run_loop env s) = Some e"
  using assms by (simp add: run_loop_def Let_def)

lemma run_loop_unhealthy:
  assumes "\<not> loaded s"
  shows "run_loop env s = reinit env [] []"
  using assms by (simp add: run_loop_def)


text \<open>
  C3. After every tick that runs to its end the cache holds at most 1000 hashes. When the
  poll completes, the cache is the one the poll extended at its end, cut from the front down
  to its last 1000 entries, so only the oldest are lost; on every other path the constructor
  has run and the cache is empty.
\<close>

theorem seen_set_bounded:
  assumes "propagated (run_loop env s) = None"
  shows "length (tnx_cache (state_after (run_loop env s))) \<le> 1000
    \<and> (if loaded s \<and> raised (check_for_new_events env s) = None
        then prefix (tnx_cache s) (snd (fst (collect env s)))
          \<and> tnx_cache (state_after (run_loop env s)) =
              drop (length (snd (fst (collect env s))) - 1000) (snd (fst (collect env s)))
        else tnx_cache (state_after (run_loop env s)) = [])"
proof (cases "loaded s \<and> raised (check_for_new_events env s) = None")
  case True
  then have "tnx_cache (state_after (run_loop env s)) = last_1000 (snd (fst (collect env s)))"
    by (simp add: run_loop_completed check_completed_cache)
  then show ?thesis
    using True collect_cache[of s env] length_last_1000[of "snd (fst (collect env s))"]
    by (simp add: last_1000_def)
next
  case False
  have "tnx_cache (state_after (run_loop env s)) = []"
  proof (cases "loaded s")
    case True
    then obtain e where e: "raised (check_for_new_events env s) = Some e"
      using False by auto
    then have "is_Exception e"
      using run_loop_cancelled[OF True e] assms by auto
    then show ?thesis
      using run_loop_failed[OF True e] by (simp add: reinit_cache)
  next
    case unhealthy: False
    then show ?thesis by (simp add: run_loop_unhealthy reinit_cache)
  qed
  then show ?thesis unfolding if_not_P[OF False] by simp
qed

theorem seen_set_bounded_witness:
  "propagated (run_loop (sample_env (\<lambda>f. Inr [deposit 7 2 ''0xnew'']) (\<lambda>n c m. None))
      (sample_state (''0xoldest'' # replicate 999 ''0xold''))) = None
   \<and> length (tnx_cache (state_after
        (run_loop (sample_env (\<lambda>f. Inr [deposit 7 2 ''0xnew'']) (\<lambda>n c m. None))
          (sample_state (''0xoldest'' # replicate 999 ''0xold''))))) \<le> 1000
   \<and> tnx_cache (state_after
        (run_loop (sample_env (\<lambda>f. Inr [deposit 7 2 ''0xnew'']) (\<lambda>n c m. None))
          (sample_state (''0xoldest'' # replicate 999 ''0xold'')))) =
       replicate 999 ''0xold'' @ [''0xnew'']"
proof -
  let ?env = "sample_env (\<lambda>f. Inr [deposit 7 2 ''0xnew'']) (\<lambda>n c m. None)"
  let ?s = "sample_state (''0xoldest'' # replicate 999 ''0xold'')"
  have c: "collect ?env ?s =
      (([sample_message 7 2 ''0xnew''], ''0xoldest'' # replicate 999 ''0xold'' @ [''0xnew'']), None)"
    by (simp add: collect_def poll_filter_def sample_state_sel sample_env_sel sample_process)
  have r: "check_for_new_events ?env ?s =
      \<lparr>new_state = sample_state (replicate 999 ''0xold'' @ [''0xnew'']),
       sent = [(DefaultChannel, sample_message 7 2 ''0xnew'')], raised = None\<rparr>"
    by (simp add: check_for_new_events_def c sample_state_sel sample_env_sel dispatch_def
        send_message_def sample_message_sel last_1000_def)
  have p: "propagated (run_loop ?env ?s) = None"
    by (simp add: run_loop_def r sample_state_sel)
  show ?thesis
    using seen_set_bounded[OF p] p by (simp add: sample_state_sel r c)
qed

section \<open>Delivery order\<close>








lemma sample_check_two:
  assumes "h1 \<noteq> h2" "h1 \<notin> set c" "h2 \<notin> set c"
    "(of_int b2 :: rat) + of_int i2 / 1000 < of_int b1 + of_int i1 / 1000"
  shows "collect (sample_env (\<lambda>f. Inr [deposit b2 i2 h2, deposit b1 i1 h1]) sn) (sample_state c) =
      (([sample_message b1 i1 h1, sample_message b2 i2 h2], c @ [h1, h2]), None)"
    and "sort_key score [sample_message b1 i1 h1, sample_message b2 i2 h2] =
      [sample_message b2 i2 h2, sample_message b1 i1 h1]"
  using assms
  by (simp_all add: collect_def poll_filter_def sample_state_sel sample_env_sel sample_process
      sample_message_sel)


section \<open>Entries the poll passes over\<close>

text \<open>Nothing but the loop over the filters reads \<open>get_new_entries\<close>.\<close>

lemma py_str_poll: "py_str (env\<lparr>get_new_entries := g\<rparr>) v = py_str env v"
  by (cases v) simp_all

lemma enrich_arg_poll: "enrich_arg (env\<lparr>get_new_entries := g\<rparr>) = enrich_arg env"
  by (intro ext)
     (simp add: enrich_arg_def fancy_link_def py_str_poll
        cong: prod.case_cong option.case_cong sum.case_cong if_cong)

lemma create_embed_poll:
  "create_embed (env\<lparr>get_new_entries := g\<rparr>) s name ev = create_embed env s name ev"
  by (simp add: create_embed_def validator_field_def enrich_args_def add_proposal_def
      enrich_arg_poll add_member_def sender_field_def get_pubkey_from_minipool_def
      get_proposal_info_def get_dao_member_name_def get_address_from_storage_contract_def
      py_str_poll
      cong: prod.case_cong option.case_cong sum.case_cong if_cong list.case_cong)

lemma process_event_poll:
  "process_event (env\<lparr>get_new_entries := g\<rparr>) s = process_event env s"
  by (intro ext)
     (simp add: process_event_def create_embed_poll
        cong: prod.case_cong option.case_cong sum.case_cong if_cong)

lemma dispatch_poll: "dispatch (env\<lparr>get_new_entries := g\<rparr>) ms = dispatch env ms"
proof -
  have "send_message (env\<lparr>get_new_entries := g\<rparr>) = send_message env"
    by (intro ext) (simp add: send_message_def)
  then show ?thesis by (simp add: dispatch_def)
qed

lemma process_events_cache:
  "prefix c (snd (fst (for_each (process_event env s) (ms, c) es)))"
  by (rule for_each_invariant[where I = "\<lambda>a. prefix c (snd a)"])
     (auto dest: process_event_cache intro: prefix_order.trans)

text \<open>
  A filter's batch can be exchanged for another one that takes the inner loop to the same
  result from every accumulator whose cache holds the hashes \<open>C\<close>: the poll does not change.
\<close>

lemma replace_batch:
  assumes inner: "\<And>ms c. C \<subseteq> set c \<Longrightarrow>
      for_each (process_event env s) (ms, c) (rev entries') =
      for_each (process_event env s) (ms, c) (rev entries)"
    and poll: "get_new_entries env f = Inr entries"
    and C: "C \<subseteq> set (tnx_cache s)"
  shows "check_for_new_events (env\<lparr>get_new_entries := (get_new_entries env)(f := Inr entries')\<rparr>) s
       = check_for_new_events env s"
proof -
  define env' where "env' = env\<lparr>get_new_entries := (get_new_entries env)(f := Inr entries')\<rparr>"
  have filt: "poll_filter env' s (ms, c) g = poll_filter env s (ms, c) g"
    if c: "C \<subseteq> set c" for ms c g
    using inner[OF c] poll
    by (simp add: env'_def poll_filter_def process_event_poll cong: sum.case_cong)
  have loop: "for_each (poll_filter env' s) (ms, c) fs = for_each (poll_filter env s) (ms, c) fs"
    if c: "C \<subseteq> set c" for ms c fs
    using c
  proof (induction fs arbitrary: ms c)
    case Nil
    then show ?case by simp
  next
    case (Cons g fs)
    obtain ms1 c1 r where a: "poll_filter env s (ms, c) g = ((ms1, c1), r)"
      by (metis surj_pair)
    have "prefix c c1" using poll_filter_cache[OF a] .
    then have c1: "C \<subseteq> set c1" using Cons.prems set_mono_prefix by blast
    show ?case
      using filt[OF Cons.prems, of ms g] a Cons.IH[OF c1, of ms1] by (cases r) simp_all
  qed
  have "collect env' s = collect env s"
    unfolding collect_def by (rule loop[OF C])
  moreover have "dispatch env' = dispatch env" "fetch_channel env' = fetch_channel env"
    by (auto simp: env'_def dispatch_poll)
  ultimately have "check_for_new_events env' s = check_for_new_events env s"
    by (simp add: check_for_new_events_def cong: prod.case_cong option.case_cong)
  then show ?thesis by (simp add: env'_def)
qed

text \<open>
  An entry that the loop body passes over, whatever has been collected so far on top of the
  hashes \<open>C\<close>, can be taken out of its filter's batch without any effect on the poll.
\<close>

lemma drop_entry:
  assumes skip: "\<And>ms c. C \<subseteq> set c \<Longrightarrow> process_event env s (ms, c) ev = ((ms, c), None)"
    and poll: "get_new_entries env f = Inr (xs @ ev # ys)"
    and C: "C \<subseteq> set (tnx_cache s)"
  shows "check_for_new_events (env\<lparr>get_new_entries := (get_new_entries env)(f := Inr (xs @ ys))\<rparr>) s
       = check_for_new_events env s"
proof (rule replace_batch[OF _ poll C])
  fix ms c
  let ?P = "process_event env s"
  assume c: "C \<subseteq> set c"
  obtain ms1 c1 r where a: "for_each ?P (ms, c) (rev ys) = ((ms1, c1), r)"
    by (metis surj_pair)
  have "prefix c c1" using process_events_cache[of c env s ms "rev ys"] a by simp
  then have "C \<subseteq> set c1" using c set_mono_prefix by blast
  then have "?P (ms1, c1) ev = ((ms1, c1), None)" by (rule skip)
  then show "for_each ?P (ms, c) (rev (xs @ ys)) = for_each ?P (ms, c) (rev (xs @ ev # ys))"
    by (cases r) (simp_all add: for_each_append a)
qed

lemma sample_env_poll: "(sample_env p sn)\<lparr>get_new_entries := g\<rparr> = sample_env g sn"
  by (simp add: sample_env_def)


lemma sample_check_quiet:
  assumes "p (EventFilter 0) = Inr []" "length c \<le> 1000"
  shows "check_for_new_events (sample_env p (\<lambda>n c m. None)) (sample_state c) =
     \<lparr>new_state = sample_state c, sent = [], raised = None\<rparr>"
  using assms
  by (simp add: check_for_new_events_def collect_def poll_filter_def sample_state_sel
      sample_env_sel dispatch_def last_1000_def)



text \<open>
  C10. An entry whose event type the mapping of its contract does not declare yields no
  message and no cache entry, whether or not its hash is in the cache: the loop body leaves
  the messages and the cache as they are, and the poll goes exactly as if the filter had not
  returned the entry.
\<close>

theorem undeclared_event_skipped:
  assumes "mapping s (address ev) = Some names" "names (event ev) = None"
  shows "(\<forall>ms c. process_event env s (ms, c) ev = ((ms, c), None))
    \<and> (\<forall>f xs ys. get_new_entries env f = Inr (xs @ ev # ys)
          \<longrightarrow> check_for_new_events env s =
              check_for_new_events
                (env\<lparr>get_new_entries := (get_new_entries env)(f := Inr (xs @ ys))\<rparr>) s)"
proof -
  have skip: "process_event env s (ms, c) ev = ((ms, c), None)" for ms c
    using assms by (simp add: process_event_def)
  have "check_for_new_events env s =
      check_for_new_events (env\<lparr>get_new_entries := (get_new_entries env)(f := Inr (xs @ ys))\<rparr>) s"
    if "get_new_entries env f = Inr (xs @ ev # ys)" for f xs ys
    using drop_entry[of "{}" env s ev f xs ys] skip that by simp
  then show ?thesis using skip by blast
qed

theorem undeclared_event_skipped_witness:
  "mapping (sample_state []) (address (undeclared ''0xbb'')) =
     Some [''DepositReceived'' \<mapsto> ''pool_deposit_event'']
   \<and> [''DepositReceived'' \<mapsto> ''pool_deposit_event''] (event (undeclared ''0xbb'')) = None
   \<and> sent (check_for_new_events
        (sample_env (\<lambda>f. Inr [undeclared ''0xbb'']) (\<lambda>n c m. None)) (sample_state [])) = []
   \<and> tnx_cache (new_state (check_for_new_events
        (sample_env (\<lambda>f. Inr [undeclared ''0xbb'']) (\<lambda>n c m. None)) (sample_state []))) = []"
proof -
  let ?env = "sample_env (\<lambda>f. Inr [undeclared ''0xbb'']) (\<lambda>n c m. None)"
  have m: "mapping (sample_state []) (address (undeclared ''0xbb'')) =
      Some [''DepositReceived'' \<mapsto> ''pool_deposit_event'']"
    by (simp add: undeclared_def deposit_def sample_state_def)
  have n: "[''DepositReceived'' \<mapsto> ''pool_deposit_event''] (event (undeclared ''0xbb'')) = None"
    by (simp add: undeclared_def)
  have "check_for_new_events ?env (sample_state []) =
      check_for_new_events
        (?env\<lparr>get_new_entries := (get_new_entries ?env)(EventFilter 0 := Inr ([] @ []))\<rparr>)
        (sample_state [])"
    using undeclared_event_skipped[OF m n, of ?env, THEN conjunct2, rule_format,
        where f = "EventFilter 0" and xs = "[]" and ys = "[]"]
    by (simp add: sample_env_sel del: fun_upd_apply)
  then have "check_for_new_events ?env (sample_state []) =
      \<lparr>new_state = sample_state [], sent = [], raised = None\<rparr>"
    by (simp add: sample_env_poll sample_env_sel sample_check_quiet)
  then show ?thesis using m n by (simp add: sample_state_sel)
qed

section \<open>A send that fails\<close>

lemma send_loop_fails:
  assumes "i < length ms"
    and "channel_send env (length out + i) (channel_of (ms ! i)) (embed (ms ! i)) = Some e"
    and "\<forall>j < i. channel_send env (length out + j) (channel_of (ms ! j)) (embed (ms ! j)) = None"
  shows "for_each (send_message env) out ms =
           (out @ map (\<lambda>m. (channel_of m, m)) (take i ms), Some e)"
  using assms
proof (induction ms arbitrary: out i)
  case Nil
  then show ?case by simp
next
  case (Cons m ms)
  show ?case
  proof (cases i)
    case 0
    then show ?thesis using Cons.prems by (simp add: send_message_def)
  next
    case (Suc k)
    have first: "channel_send env (length out) (channel_of m) (embed m) = None"
      using Cons.prems(3) Suc by force
    have step: "for_each (send_message env) out (m # ms) =
        for_each (send_message env) (out @ [(channel_of m, m)]) ms"
      using first by (simp add: send_message_def)
    have rest: "for_each (send_message env) (out @ [(channel_of m, m)]) ms =
        ((out @ [(channel_of m, m)]) @ map (\<lambda>m. (channel_of m, m)) (take k ms), Some e)"
    proof (rule Cons.IH)
      show "k < length ms" using Cons.prems(1) Suc by simp
      show "channel_send env (length (out @ [(channel_of m, m)]) + k)
              (channel_of (ms ! k)) (embed (ms ! k)) = Some e"
        using Cons.prems(2) Suc by simp
      show "\<forall>j<k. channel_send env (length (out @ [(channel_of m, m)]) + j)
              (channel_of (ms ! j)) (embed (ms ! j)) = None"
      proof (intro allI impI)
        fix j assume "j < k"
        then have "Suc j < i" using Suc by simp
        then show "channel_send env (length (out @ [(channel_of m, m)]) + j)
              (channel_of (ms ! j)) (embed (ms ! j)) = None"
          using Cons.prems(3)[rule_format, of "Suc j"] by simp
      qed
    qed
    show ?thesis unfolding step rest using Suc by simp
  qed
qed

text \<open>
  C5, as the code has it. The dispatch loop has no handler of its own: when the send of the
  \<open>i\<close>-th message of the sorted batch is the first to fail, the messages before it have been
  delivered, it and every message after it are not, the error leaves
  \<open>check_for_new_events\<close> and the cache is left untrimmed.
\<close>

theorem send_failure_ends_dispatch:
  assumes "loaded s"
    and "collect env s = ((messages, cache), None)"
    and "fetch_channel env DefaultChannel = None"
    and "fetch_channel env OdaoChannel = None"
    and "i < length messages"
    and "channel_send env i (channel_of (sort_key score messages ! i))
           (embed (sort_key score messages ! i)) = Some e"
    and "\<forall>j < i. channel_send env j (channel_of (sort_key score messages ! j))
           (embed (sort_key score messages ! j)) = None"
  shows "sent (check_for_new_events env s) =
           map (\<lambda>m. (channel_of m, m)) (take i (sort_key score messages))
    \<and> raised (check_for_new_events env s) = Some e
    \<and> tnx_cache (new_state (check_for_new_events env s)) = cache"
proof -
  have "dispatch env messages =
      (map (\<lambda>m. (channel_of m, m)) (take i (sort_key score messages)), Some e)"
    unfolding dispatch_def
    using send_loop_fails[of i "sort_key score messages" env "[]" e] assms(5,6,7) by simp
  then show ?thesis using assms(1-4) by (simp add: check_for_new_events_def)
qed

theorem send_failure_ends_dispatch_witness:
  "collect (sample_env (\<lambda>f. Inr [deposit 7 2 ''0x02'', deposit 7 5 ''0x05'']) (fails_at 1))
      (sample_state []) =
     (([sample_message 7 5 ''0x05'', sample_message 7 2 ''0x02''], [''0x05'', ''0x02'']), None)
   \<and> channel_send (sample_env (\<lambda>f. Inr [deposit 7 2 ''0x02'', deposit 7 5 ''0x05'']) (fails_at 1))
        0 DefaultChannel (embed (sample_message 7 2 ''0x02'')) = None
   \<and> channel_send (sample_env (\<lambda>f. Inr [deposit 7 2 ''0x02'', deposit 7 5 ''0x05'']) (fails_at 1))
        1 DefaultChannel (embed (sample_message 7 5 ''0x05'')) = Some (Failure ''HTTPException'')
   \<and> sent (check_for_new_events
        (sample_env (\<lambda>f. Inr [deposit 7 2 ''0x02'', deposit 7 5 ''0x05'']) (fails_at 1))
        (sample_state [])) = [(DefaultChannel, sample_message 7 2 ''0x02'')]
   \<and> raised (check_for_new_events
        (sample_env (\<lambda>f. Inr [deposit 7 2 ''0x02'', deposit 7 5 ''0x05'']) (fails_at 1))
        (sample_state [])) = Some (Failure ''HTTPException'')"
proof -
  let ?env = "sample_env (\<lambda>f. Inr [deposit 7 2 ''0x02'', deposit 7 5 ''0x05'']) (fails_at 1)"
  have c: "collect ?env (sample_state []) =
     (([sample_message 7 5 ''0x05'', sample_message 7 2 ''0x02''], [''0x05'', ''0x02'']), None)"
    using sample_check_two(1)[of "''0x05''" "''0x02''" "[]" 7 2 7 5 "fails_at 1"] by simp
  have srt: "sort_key score [sample_message 7 5 ''0x05'', sample_message 7 2 ''0x02''] =
      [sample_message 7 2 ''0x02'', sample_message 7 5 ''0x05'']"
    using sample_check_two(2)[of "''0x05''" "''0x02''" "[]" 7 2 7 5] by simp
  have "sent (check_for_new_events ?env (sample_state [])) =
      map (\<lambda>m. (channel_of m, m))
        (take 1 (sort_key score [sample_message 7 5 ''0x05'', sample_message 7 2 ''0x02'']))
    \<and> raised (check_for_new_events ?env (sample_state [])) = Some (Failure ''HTTPException'')
    \<and> tnx_cache (new_state (check_for_new_events ?env (sample_state []))) = [''0x05'', ''0x02'']"
    by (rule send_failure_ends_dispatch[OF _ c])
       (simp_all add: sample_state_sel sample_env_sel srt sample_message_sel fails_at_def)
  then show ?thesis
    using c by (simp add: srt sample_env_sel sample_message_sel fails_at_def)
qed

text \<open>
  The claim as it is written fails: with two messages pending and a platform that refuses
  only the first send, the second message, which would have been accepted, is never sent.
\<close>

theorem later_messages_not_attempted:
  "sort_key score (fst (fst (collect
      (sample_env (\<lambda>f. Inr [deposit 7 2 ''0x02'', deposit 7 5 ''0x05'']) (fails_at 0))
      (sample_state [])))) = [sample_message 7 2 ''0x02'', sample_message 7 5 ''0x05'']
   \<and> channel_send (sample_env (\<lambda>f. Inr [deposit 7 2 ''0x02'', deposit 7 5 ''0x05'']) (fails_at 0))
        0 DefaultChannel (embed (sample_message 7 2 ''0x02'')) = Some (Failure ''HTTPException'')
   \<and> channel_send (sample_env (\<lambda>f. Inr [deposit 7 2 ''0x02'', deposit 7 5 ''0x05'']) (fails_at 0))
        1 DefaultChannel (embed (sample_message 7 5 ''0x05'')) = None
   \<and> sent (check_for_new_events
        (sample_env (\<lambda>f. Inr [deposit 7 2 ''0x02'', deposit 7 5 ''0x05'']) (fails_at 0))
        (sample_state [])) = []
   \<and> raised (check_for_new_events
        (sample_env (\<lambda>f. Inr [deposit 7 2 ''0x02'', deposit 7 5 ''0x05'']) (fails_at 0))
        (sample_state [])) = Some (Failure ''HTTPException'')"
proof -
  let ?env = "sample_env (\<lambda>f. Inr [deposit 7 2 ''0x02'', deposit 7 5 ''0x05'']) (fails_at 0)"
  have c: "collect ?env (sample_state []) =
     (([sample_message 7 5 ''0x05'', sample_message 7 2 ''0x02''], [''0x05'', ''0x02'']), None)"
    using sample_check_two(1)[of "''0x05''" "''0x02''" "[]" 7 2 7 5 "fails_at 0"] by simp
  have srt: "sort_key score [sample_message 7 5 ''0x05'', sample_message 7 2 ''0x02''] =
      [sample_message 7 2 ''0x02'', sample_message 7 5 ''0x05'']"
    using sample_check_two(2)[of "''0x05''" "''0x02''" "[]" 7 2 7 5] by simp
  show ?thesis
    by (simp add: check_for_new_events_def c srt sample_state_sel sample_env_sel dispatch_def
        send_message_def sample_message_sel fails_at_def)
qed

section \<open>The two states of the supervisor\<close>

lemma check_keeps_loaded: "loaded (new_state (check_for_new_events env s)) = loaded s"
  by (simp add: check_for_new_events_def split: prod.splits option.splits)

lemma reinit_ok:
  assumes "snd (init env) = None"
  shows "reinit env out errs =
    \<lparr>state_after = fst (init env), delivered = out, logged = errs, propagated = None\<rparr>"
  using assms by (cases "init env") (simp add: reinit_def)

lemma reinit_failed:
  assumes "snd (init env) = Some e" "is_Exception e"
  shows "reinit env out errs =
    \<lparr>state_after = (fst (init env))\<lparr>loaded := False\<rparr>, delivered = out, logged = errs @ [e],
     propagated = None\<rparr>"
  using assms by (cases "init env") (simp add: reinit_def)

text \<open>
  C4, as the code has it. The supervisor has two states, \<open>loaded\<close> or not, and the
  constructor starts it loaded. A tick that starts loaded and whose poll completes stays
  loaded and logs nothing. When the poll raises an \<open>Exception\<close>, it is logged, not raised
  again, and the same tick goes on to run the constructor: the object is then the one the
  constructor built from the configuration, loaded if the constructor succeeded, and not
  loaded, with the second error logged too, if it failed. A tick that starts not loaded
  runs the constructor with the same two outcomes.
\<close>

theorem supervisor_tick:
  "loaded (fst (init env))
   \<and> (loaded s \<and> raised (check_for_new_events env s) = None \<longrightarrow>
        state_after (run_loop env s) = new_state (check_for_new_events env s)
        \<and> loaded (state_after (run_loop env s))
        \<and> logged (run_loop env s) = [] \<and> propagated (run_loop env s) = None)
   \<and> (loaded s \<and> raised (check_for_new_events env s) = Some e \<and> is_Exception e
        \<and> snd (init env) = None \<longrightarrow>
        state_after (run_loop env s) = fst (init env)
        \<and> loaded (state_after (run_loop env s))
        \<and> logged (run_loop env s) = [e] \<and> propagated (run_loop env s) = None)
   \<and> (loaded s \<and> raised (check_for_new_events env s) = Some e \<and> is_Exception e
        \<and> snd (init env) = Some e' \<and> is_Exception e' \<longrightarrow>
        \<not> loaded (state_after (run_loop env s))
        \<and> logged (run_loop env s) = [e, e'] \<and> propagated (run_loop env s) = None)
   \<and> (\<not> loaded s \<and> snd (init env) = None \<longrightarrow>
        state_after (run_loop env s) = fst (init env)
        \<and> loaded (state_after (run_loop env s))
        \<and> logged (run_loop env s) = [] \<and> propagated (run_loop env s) = None)
   \<and> (\<not> loaded s \<and> snd (init env) = Some e' \<and> is_Exception e' \<longrightarrow>
        \<not> loaded (state_after (run_loop env s))
        \<and> logged (run_loop env s) = [e'] \<and> propagated (run_loop env s) = None)"
proof (intro conjI impI)
  show "loaded (fst (init env))" using init_fresh by blast
next
  assume a: "loaded s \<and> raised (check_for_new_events env s) = None"
  then have "run_loop env s =
    \<lparr>state_after = new_state (check_for_new_events env s),
     delivered = sent (check_for_new_events env s), logged = [], propagated = None\<rparr>"
    by (simp add: run_loop_completed)
  then show "state_after (run_loop env s) = new_state (check_for_new_events env s)"
    "loaded (state_after (run_loop env s))"
    "logged (run_loop env s) = []" "propagated (run_loop env s) = None"
    using a by (simp_all add: check_keeps_loaded)
next
  assume a: "loaded s \<and> raised (check_for_new_events env s) = Some e \<and> is_Exception e
        \<and> snd (init env) = None"
  then have "run_loop env s = reinit env (sent (check_for_new_events env s)) [e]"
    by (simp add: run_loop_failed)
  then have r: "run_loop env s =
    \<lparr>state_after = fst (init env), delivered = sent (check_for_new_events env s),
     logged = [e], propagated = None\<rparr>"
    using a by (simp add: reinit_ok)
  show "state_after (run_loop env s) = fst (init env)"
    "loaded (state_after (run_loop env s))"
    "logged (run_loop env s) = [e]" "propagated (run_loop env s) = None"
    using init_fresh[of env] by (simp_all add: r)
next
  assume a: "loaded s \<and> raised (check_for_new_events env s) = Some e \<and> is_Exception e
        \<and> snd (init env) = Some e' \<and> is_Exception e'"
  then have "run_loop env s = reinit env (sent (check_for_new_events env s)) [e]"
    by (simp add: run_loop_failed)
  then have r: "run_loop env s =
    \<lparr>state_after = (fst (init env))\<lparr>loaded := False\<rparr>,
     delivered = sent (check_for_new_events env s), logged = [e, e'], propagated = None\<rparr>"
    using a by (simp add: reinit_failed)
  show "\<not> loaded (state_after (run_loop env s))"
    "logged (run_loop env s) = [e, e']" "propagated (run_loop env s) = None"
    by (simp_all add: r)
next
  assume a: "\<not> loaded s \<and> snd (init env) = None"
  then have r: "run_loop env s =
    \<lparr>state_after = fst (init env), delivered = [], logged = [], propagated = None\<rparr>"
    by (simp add: run_loop_unhealthy reinit_ok)
  show "state_after (run_loop env s) = fst (init env)"
    "loaded (state_after (run_loop env s))"
    "logged (run_loop env s) = []" "propagated (run_loop env s) = None"
    using init_fresh[of env] by (simp_all add: r)
next
  assume a: "\<not> loaded s \<and> snd (init env) = Some e' \<and> is_Exception e'"
  then have r: "run_loop env s =
    \<lparr>state_after = (fst (init env))\<lparr>loaded := False\<rparr>, delivered = [], logged = [e'],
     propagated = None\<rparr>"
    by (simp add: run_loop_unhealthy reinit_failed)
  show "\<not> loaded (state_after (run_loop env s))"
    "logged (run_loop env s) = [e']" "propagated (run_loop env s) = None"
    by (simp_all add: r)
qed

lemma sample_init: "init (sample_env p sn) = (sample_state [], None)"
  by (simp add: init_def sample_env_def sample_config_def load_source_def
      get_address_from_storage_contract_def add_filter_def sample_state_def)

lemma no_node_init:
  "snd (init no_node) = Some (Failure ''no route to host'')"
  by (simp add: init_def no_node_def sample_env_def)

lemma down_check:
  "raised (check_for_new_events (sample_env down sn) (sample_state c)) =
     Some (Failure ''ConnectionClosed'')"
  by (simp add: check_for_new_events_def collect_def poll_filter_def sample_state_sel
      sample_env_sel down_def)

lemma no_node_check:
  "raised (check_for_new_events no_node (sample_state c)) = Some (Failure ''ConnectionClosed'')"
  by (simp add: check_for_new_events_def collect_def poll_filter_def sample_state_sel
      no_node_def sample_env_def down_def)

theorem supervisor_tick_witness:
  "loaded (sample_state [''0x01''])
   \<and> raised (check_for_new_events no_node (sample_state [''0x01''])) =
       Some (Failure ''ConnectionClosed'')
   \<and> snd (init no_node) = Some (Failure ''no route to host'')
   \<and> \<not> loaded (state_after (run_loop no_node (sample_state [''0x01''])))
   \<and> logged (run_loop no_node (sample_state [''0x01''])) =
       [Failure ''ConnectionClosed'', Failure ''no route to host'']
   \<and> propagated (run_loop no_node (sample_state [''0x01''])) = None
   \<and> snd (init (sample_env (\<lambda>f. Inr []) (\<lambda>n c m. None))) = None
   \<and> loaded (state_after (run_loop (sample_env (\<lambda>f. Inr []) (\<lambda>n c m. None))
        (state_after (run_loop no_node (sample_state [''0x01'']))))) 
   \<and> state_after (run_loop (sample_env (\<lambda>f. Inr []) (\<lambda>n c m. None))
        (state_after (run_loop no_node (sample_state [''0x01''])))) = sample_state []"
proof -
  let ?s = "sample_state [''0x01'']"
  let ?ok = "sample_env (\<lambda>f. Inr []) (\<lambda>n c m. None)"
  have l: "loaded ?s" by (simp add: sample_state_sel)
  have i: "snd (init ?ok) = None" by (simp add: sample_init)
  have first: "\<not> loaded (state_after (run_loop no_node ?s))
      \<and> logged (run_loop no_node ?s) = [Failure ''ConnectionClosed'', Failure ''no route to host'']
      \<and> propagated (run_loop no_node ?s) = None"
    using supervisor_tick[of no_node ?s "Failure ''ConnectionClosed''" "Failure ''no route to host''"]
      l no_node_check[of "[''0x01'']"] no_node_init by simp
  then have second: "state_after (run_loop ?ok (state_after (run_loop no_node ?s))) = fst (init ?ok)
      \<and> loaded (state_after (run_loop ?ok (state_after (run_loop no_node ?s))))"
    using supervisor_tick[of ?ok "state_after (run_loop no_node ?s)"] i by simp
  show ?thesis
    using l no_node_check[of "[''0x01'']"] no_node_init first second i
    by (simp add: sample_init sample_state_sel)
qed

text \<open>
  The claim as it is written fails: a loaded tick whose poll raises a transport error, with
  a node that answers the constructor, ends loaded, rebuilt in that same tick; the pipeline
  is not left unhealthy for the next tick to rebuild.
\<close>

theorem rebuilt_within_the_failing_tick:
  "loaded (sample_state [''0x01''])
   \<and> raised (check_for_new_events (sample_env down (\<lambda>n c m. None)) (sample_state [''0x01''])) =
       Some (Failure ''ConnectionClosed'')
   \<and> loaded (state_after (run_loop (sample_env down (\<lambda>n c m. None)) (sample_state [''0x01''])))
   \<and> state_after (run_loop (sample_env down (\<lambda>n c m. None)) (sample_state [''0x01''])) =
       fst (init (sample_env down (\<lambda>n c m. None)))
   \<and> logged (run_loop (sample_env down (\<lambda>n c m. None)) (sample_state [''0x01''])) =
       [Failure ''ConnectionClosed'']"
proof -
  let ?env = "sample_env down (\<lambda>n c m. None)"
  let ?s = "sample_state [''0x01'']"
  have "run_loop ?env ?s = reinit ?env (sent (check_for_new_events ?env ?s)) [Failure ''ConnectionClosed'']"
    by (rule run_loop_failed) (simp_all add: sample_state_sel down_check)
  then show ?thesis
    by (simp add: reinit_def sample_init sample_state_sel down_check)
qed

section \<open>What the constructor forgets\<close>

lemma run_loop_rebuilt_cache:
  assumes "\<not> (loaded s \<and> raised (check_for_new_events env s) = None)"
    and "propagated (run_loop env s) = None"
  shows "tnx_cache (state_after (run_loop env s)) = []"
proof (cases "loaded s")
  case True
  then obtain e where e: "raised (check_for_new_events env s) = Some e"
    using assms(1) by auto
  then have "is_Exception e"
    using run_loop_cancelled[OF True e] assms(2) by auto
  then show ?thesis
    using run_loop_failed[OF True e] by (simp add: reinit_cache)
next
  case False
  then show ?thesis by (simp add: run_loop_unhealthy reinit_cache)
qed

text \<open>A poll in which one filter returns one declared entry and the others return nothing.\<close>

lemma single_entry_poll:
  assumes "\<forall>g \<in> set fs. get_new_entries env g = Inr (if g = f then [ev] else [])"
    and "mapping s (address ev) = Some names"
    and "names (event ev) = Some name"
    and "create_embed env s name ev = Inr emb"
  shows "for_each (poll_filter env s) (ms, c) fs =
     (if f \<in> set fs \<and> transactionHash ev \<notin> set c
      then ((ms @ [\<lparr>score = event_score ev, embed = emb, event_name = name\<rparr>],
             c @ [transactionHash ev]), None)
      else ((ms, c), None))"
  using assms(1)
proof (induction fs arbitrary: ms c)
  case Nil
  then show ?case by simp
next
  case (Cons g fs)
  let ?m = "\<lparr>score = event_score ev, embed = emb, event_name = name\<rparr>"
  have step: "poll_filter env s (ms, c) g =
      (if g = f \<and> transactionHash ev \<notin> set c then ((ms @ [?m], c @ [transactionHash ev]), None)
       else ((ms, c), None))"
    using Cons.prems assms(2,3,4) by (simp add: poll_filter_def process_event_def)
  have rest: "\<forall>g \<in> set fs. get_new_entries env g = Inr (if g = f then [ev] else [])"
    using Cons.prems by simp
  show ?case
    using step Cons.IH[OF rest] by auto
qed

text \<open>
  C9. When a tick has run the constructor and left the object loaded, the cache is empty,
  whatever hashes it held before. An entry polled in a later tick is then enriched, sent and
  recorded like a new one, also when its transaction hash had been delivered before the
  failure.
\<close>

theorem rebuild_forgets_seen_hashes:
  assumes "\<not> (loaded s \<and> raised (check_for_new_events env1 s) = None)"
    and "propagated (run_loop env1 s) = None"
    and "s' = state_after (run_loop env1 s)"
    and "loaded s'"
    and "f \<in> set (events s')"
    and "\<forall>g \<in> set (events s'). get_new_entries env2 g = Inr (if g = f then [ev] else [])"
    and "mapping s' (address ev) = Some names"
    and "names (event ev) = Some name"
    and "create_embed env2 s' name ev = Inr emb"
    and "m = \<lparr>score = event_score ev, embed = emb, event_name = name\<rparr>"
    and "fetch_channel env2 DefaultChannel = None"
    and "fetch_channel env2 OdaoChannel = None"
    and "channel_send env2 0 (channel_of m) emb = None"
  shows "tnx_cache s' = []
    \<and> sent (check_for_new_events env2 s') = [(channel_of m, m)]
    \<and> raised (check_for_new_events env2 s') = None
    \<and> tnx_cache (new_state (check_for_new_events env2 s')) = [transactionHash ev]"
proof -
  have empty: "tnx_cache s' = []"
    using run_loop_rebuilt_cache[OF assms(1,2)] assms(3) by simp
  have c: "collect env2 s' = (([m], [transactionHash ev]), None)"
    unfolding collect_def
    using single_entry_poll[OF assms(6,7,8,9), of "[]" "tnx_cache s'"] assms(5,10) empty
    by simp
  have d: "dispatch env2 [m] = ([(channel_of m, m)], None)"
    using assms(10,13) by (simp add: dispatch_def send_message_def)
  show ?thesis
    using empty assms(4,11,12) by (simp add: check_for_new_events_def c d last_1000_def)
qed

theorem rebuild_forgets_seen_hashes_witness:
  "transactionHash (deposit 7 2 ''0xaa'') \<in> set (tnx_cache (sample_state [''0xaa'']))
   \<and> raised (check_for_new_events (sample_env down (\<lambda>n c m. None)) (sample_state [''0xaa''])) =
       Some (Failure ''ConnectionClosed'')
   \<and> propagated (run_loop (sample_env down (\<lambda>n c m. None)) (sample_state [''0xaa''])) = None
   \<and> loaded (state_after (run_loop (sample_env down (\<lambda>n c m. None)) (sample_state [''0xaa''])))
   \<and> tnx_cache (state_after (run_loop (sample_env down (\<lambda>n c m. None)) (sample_state [''0xaa'']))) = []
   \<and> sent (check_for_new_events (sample_env (\<lambda>f. Inr [deposit 7 2 ''0xaa'']) (\<lambda>n c m. None))
        (state_after (run_loop (sample_env down (\<lambda>n c m. None)) (sample_state [''0xaa''])))) =
       [(DefaultChannel, sample_message 7 2 ''0xaa'')]
   \<and> tnx_cache (new_state (check_for_new_events
        (sample_env (\<lambda>f. Inr [deposit 7 2 ''0xaa'']) (\<lambda>n c m. None))
        (state_after (run_loop (sample_env down (\<lambda>n c m. None)) (sample_state [''0xaa'']))))) =
       [''0xaa'']"
proof -
  let ?env1 = "sample_env down (\<lambda>n c m. None)"
  let ?env2 = "sample_env (\<lambda>f. Inr [deposit 7 2 ''0xaa'']) (\<lambda>n c m. None)"
  let ?s = "sample_state [''0xaa'']"
  have t1: "run_loop ?env1 ?s =
      \<lparr>state_after = sample_state [], delivered = [], logged = [Failure ''ConnectionClosed''],
       propagated = None\<rparr>"
    using run_loop_failed[of ?s ?env1 "Failure ''ConnectionClosed''"]
    by (simp add: sample_state_sel down_check reinit_def sample_init check_for_new_events_def
        collect_def poll_filter_def sample_env_sel down_def)
  have "tnx_cache (sample_state []) = []
    \<and> sent (check_for_new_events ?env2 (sample_state [])) =
        [(channel_of (sample_message 7 2 ''0xaa''), sample_message 7 2 ''0xaa'')]
    \<and> raised (check_for_new_events ?env2 (sample_state [])) = None
    \<and> tnx_cache (new_state (check_for_new_events ?env2 (sample_state []))) =
        [transactionHash (deposit 7 2 ''0xaa'')]"
  proof (rule rebuild_forgets_seen_hashes[where s = ?s and ?env1.0 = ?env1 and f = "EventFilter 0"
        and names = "[''DepositReceived'' \<mapsto> ''pool_deposit_event'']"
        and name = "''pool_deposit_event''"
        and emb = "embed (sample_message 7 2 ''0xaa'')"])
    show "\<not> (loaded ?s \<and> raised (check_for_new_events ?env1 ?s) = None)"
      by (simp add: down_check)
    show "create_embed ?env2 (sample_state []) ''pool_deposit_event'' (deposit 7 2 ''0xaa'') =
        Inr (embed (sample_message 7 2 ''0xaa''))"
      by (simp add: sample_message_def sample_embed)
    show "sample_message 7 2 ''0xaa'' =
        \<lparr>score = event_score (deposit 7 2 ''0xaa''), embed = embed (sample_message 7 2 ''0xaa''),
         event_name = ''pool_deposit_event''\<rparr>"
      by (simp add: sample_message_def deposit_sel)
  qed (simp_all add: t1 sample_state_sel sample_env_sel deposit_sel)
  then show ?thesis
    by (simp add: t1 down_check sample_state_sel deposit_sel sample_message_sel)
qed

section \<open>Newest entry first\<close>

lemma process_event_records:
  assumes "process_event env s (ms, c) ev = ((ms', c'), None)"
    and "mapping s (address ev) = Some names" "names (event ev) = Some name"
  shows "transactionHash ev \<in> set c'"
  using assms
  by (auto simp: process_event_def split: if_splits sum.splits)

lemma process_event_seen:
  assumes "transactionHash ev \<in> set c" "address ev \<in> dom (mapping s)"
  shows "process_event env s (ms, c) ev = ((ms, c), None)"
  using assms by (auto simp: process_event_def split: option.splits)

text \<open>
  C7, as the code has it. Each batch is walked from its last entry to its first and the
  dedup check is on the transaction hash alone. So when a transaction is announced more
  than once in a batch, an older entry of it (from a contract of the mapping) that is
  followed by a declared entry with the same hash is discarded: the poll goes as if the
  filter had not returned it. And when the last entry of a batch is new and the entries
  before it all carry its hash, the batch yields one message and one cache entry, those of
  that last entry.
\<close>

theorem newest_entry_of_transaction_kept:
  "(transactionHash old = transactionHash new \<and> address old \<in> dom (mapping s)
      \<and> mapping s (address new) = Some names \<and> names (event new) = Some name
      \<and> get_new_entries env f = Inr (pre @ old # mid @ new # post)
    \<longrightarrow> check_for_new_events env s =
        check_for_new_events
          (env\<lparr>get_new_entries := (get_new_entries env)(f := Inr (pre @ mid @ new # post))\<rparr>) s)
   \<and> ((\<forall>ev \<in> set older. transactionHash ev = transactionHash new
          \<and> address ev \<in> dom (mapping s))
      \<and> mapping s (address new) = Some names \<and> names (event new) = Some name
      \<and> transactionHash new \<notin> set c \<and> create_embed env s name new = Inr emb
      \<and> get_new_entries env f = Inr (older @ [new])
    \<longrightarrow> poll_filter env s (ms, c) f =
        ((ms @ [\<lparr>score = event_score new, embed = emb, event_name = name\<rparr>],
          c @ [transactionHash new]), None))"
proof (intro conjI impI)
  assume a: "transactionHash old = transactionHash new \<and> address old \<in> dom (mapping s)
      \<and> mapping s (address new) = Some names \<and> names (event new) = Some name
      \<and> get_new_entries env f = Inr (pre @ old # mid @ new # post)"
  let ?P = "process_event env s"
  have inner: "for_each ?P (ms, c) (rev (pre @ mid @ new # post)) =
      for_each ?P (ms, c) (rev (pre @ old # mid @ new # post))" for ms c
  proof -
    obtain ms1 c1 r1 where p1: "for_each ?P (ms, c) (rev post) = ((ms1, c1), r1)"
      by (metis surj_pair)
    obtain ms2 c2 r2 where p2: "?P (ms1, c1) new = ((ms2, c2), r2)"
      by (metis surj_pair)
    obtain ms3 c3 r3 where p3: "for_each ?P (ms2, c2) (rev mid) = ((ms3, c3), r3)"
      by (metis surj_pair)
    show ?thesis
    proof (cases "r1 = None \<and> r2 = None \<and> r3 = None")
      case True
      have "transactionHash new \<in> set c2"
        using process_event_records[of env s ms1 c1 new ms2 c2 names name] p2 True a by simp
      moreover have "prefix c2 c3"
        using process_events_cache[of c2 env s ms2 "rev mid"] p3 by simp
      ultimately have "transactionHash old \<in> set c3"
        using a set_mono_prefix by fastforce
      then have "?P (ms3, c3) old = ((ms3, c3), None)"
        using a by (simp add: process_event_seen)
      then show ?thesis
        using True by (simp add: for_each_append p1 p2 p3)
    next
      case False
      then show ?thesis
        by (cases r1; cases r2; cases r3) (simp_all add: for_each_append p1 p2 p3)
    qed
  qed
  show "check_for_new_events env s =
      check_for_new_events
        (env\<lparr>get_new_entries := (get_new_entries env)(f := Inr (pre @ mid @ new # post))\<rparr>) s"
    using replace_batch[of "{}" env s "pre @ mid @ new # post" "pre @ old # mid @ new # post" f]
      inner a by simp
next
  assume a: "(\<forall>ev \<in> set older. transactionHash ev = transactionHash new
          \<and> address ev \<in> dom (mapping s))
      \<and> mapping s (address new) = Some names \<and> names (event new) = Some name
      \<and> transactionHash new \<notin> set c \<and> create_embed env s name new = Inr emb
      \<and> get_new_entries env f = Inr (older @ [new])"
  let ?m = "\<lparr>score = event_score new, embed = emb, event_name = name\<rparr>"
  have first: "process_event env s (ms, c) new = ((ms @ [?m], c @ [transactionHash new]), None)"
    using a by (simp add: process_event_def)
  have rest: "for_each (process_event env s) (ms @ [?m], c @ [transactionHash new]) (rev older) =
      ((ms @ [?m], c @ [transactionHash new]), None)"
  proof (rule for_each_idle, intro ballI)
    fix x assume "x \<in> set (rev older)"
    then have "transactionHash x \<in> set (c @ [transactionHash new])" "address x \<in> dom (mapping s)"
      using a by auto
    then show "process_event env s (ms @ [?m], c @ [transactionHash new]) x =
        ((ms @ [?m], c @ [transactionHash new]), None)"
      by (rule process_event_seen)
  qed
  show "poll_filter env s (ms, c) f = ((ms @ [?m], c @ [transactionHash new]), None)"
    using a first rest by (simp add: poll_filter_def)
qed

lemma sample_check_single:
  assumes "p (EventFilter 0) = Inr [deposit b i h]" "h \<notin> set c" "length c < 1000"
  shows "check_for_new_events (sample_env p (\<lambda>n c m. None)) (sample_state c) =
     \<lparr>new_state = sample_state (c @ [h]), sent = [(DefaultChannel, sample_message b i h)],
      raised = None\<rparr>"
  using assms
  by (simp add: check_for_new_events_def collect_def poll_filter_def sample_state_sel
      sample_env_sel sample_process dispatch_def send_message_def sample_message_sel
      last_1000_def)

theorem newest_entry_of_transaction_kept_witness:
  "transactionHash (deposit 7 2 ''0xaa'') = transactionHash (deposit 8 1 ''0xaa'')
   \<and> get_new_entries
        (sample_env (\<lambda>f. Inr [deposit 7 2 ''0xaa'', deposit 8 1 ''0xaa'']) (\<lambda>n c m. None))
        (EventFilter 0) = Inr [deposit 7 2 ''0xaa'', deposit 8 1 ''0xaa'']
   \<and> sent (check_for_new_events
        (sample_env (\<lambda>f. Inr [deposit 7 2 ''0xaa'', deposit 8 1 ''0xaa'']) (\<lambda>n c m. None))
        (sample_state [])) = [(DefaultChannel, sample_message 8 1 ''0xaa'')]
   \<and> tnx_cache (new_state (check_for_new_events
        (sample_env (\<lambda>f. Inr [deposit 7 2 ''0xaa'', deposit 8 1 ''0xaa'']) (\<lambda>n c m. None))
        (sample_state []))) = [''0xaa'']"
proof -
  let ?env = "sample_env (\<lambda>f. Inr [deposit 7 2 ''0xaa'', deposit 8 1 ''0xaa'']) (\<lambda>n c m. None)"
  have known: "address (deposit 7 2 ''0xaa'') \<in> dom (mapping (sample_state []))"
    by (simp add: deposit_sel sample_state_sel domI)
  have prem: "transactionHash (deposit 7 2 ''0xaa'') = transactionHash (deposit 8 1 ''0xaa'')
      \<and> address (deposit 7 2 ''0xaa'') \<in> dom (mapping (sample_state []))
      \<and> mapping (sample_state []) (address (deposit 8 1 ''0xaa'')) =
          Some [''DepositReceived'' \<mapsto> ''pool_deposit_event'']
      \<and> [''DepositReceived'' \<mapsto> ''pool_deposit_event''] (event (deposit 8 1 ''0xaa'')) =
          Some ''pool_deposit_event''
      \<and> get_new_entries ?env (EventFilter 0) =
          Inr ([] @ deposit 7 2 ''0xaa'' # [] @ deposit 8 1 ''0xaa'' # [])"
    using known by (simp add: deposit_sel sample_state_sel sample_env_sel)
  have "check_for_new_events ?env (sample_state []) =
      check_for_new_events
        (?env\<lparr>get_new_entries :=
           (get_new_entries ?env)(EventFilter 0 := Inr ([] @ [] @ deposit 8 1 ''0xaa'' # []))\<rparr>)
        (sample_state [])"
    by (rule newest_entry_of_transaction_kept[THEN conjunct1, rule_format, OF prem])
  also have "\<dots> = \<lparr>new_state = sample_state [''0xaa''],
      sent = [(DefaultChannel, sample_message 8 1 ''0xaa'')], raised = None\<rparr>"
    using sample_check_single[of
        "(\<lambda>f. Inr [deposit 7 2 ''0xaa'', deposit 8 1 ''0xaa''])
           (EventFilter 0 := Inr [deposit 8 1 ''0xaa''])" 8 1 "''0xaa''" "[]"]
    by (simp add: sample_env_poll sample_env_sel)
  finally show ?thesis
    by (simp add: deposit_sel sample_env_sel sample_state_sel)
qed

text \<open>
  The claim as it is written fails: the same deposit announced under two different
  transactions, as after a reorg, is delivered twice; the dedup check does not discard the
  older one.
\<close>

theorem reorged_event_delivered_twice:
  "address (deposit 7 2 ''0xold'') = address (deposit 8 1 ''0xnew'')
   \<and> event (deposit 7 2 ''0xold'') = event (deposit 8 1 ''0xnew'')
   \<and> args (deposit 7 2 ''0xold'') = args (deposit 8 1 ''0xnew'')
   \<and> transactionHash (deposit 7 2 ''0xold'') \<noteq> transactionHash (deposit 8 1 ''0xnew'')
   \<and> sent (check_for_new_events
        (sample_env (\<lambda>f. Inr [deposit 7 2 ''0xold'', deposit 8 1 ''0xnew'']) (\<lambda>n c m. None))
        (sample_state [])) =
       [(DefaultChannel, sample_message 7 2 ''0xold''), (DefaultChannel, sample_message 8 1 ''0xnew'')]
   \<and> tnx_cache (new_state (check_for_new_events
        (sample_env (\<lambda>f. Inr [deposit 7 2 ''0xold'', deposit 8 1 ''0xnew'']) (\<lambda>n c m. None))
        (sample_state []))) = [''0xnew'', ''0xold'']"
proof -
  let ?env = "sample_env (\<lambda>f. Inr [deposit 7 2 ''0xold'', deposit 8 1 ''0xnew'']) (\<lambda>n c m. None)"
  have c: "collect ?env (sample_state []) =
     (([sample_message 8 1 ''0xnew'', sample_message 7 2 ''0xold''], [''0xnew'', ''0xold'']), None)"
    using sample_check_two(1)[of "''0xnew''" "''0xold''" "[]" 7 2 8 1 "\<lambda>n c m. None"] by simp
  have srt: "sort_key score [sample_message 8 1 ''0xnew'', sample_message 7 2 ''0xold''] =
      [sample_message 7 2 ''0xold'', sample_message 8 1 ''0xnew'']"
    using sample_check_two(2)[of "''0xnew''" "''0xold''" "[]" 7 2 8 1] by simp
  show ?thesis
    by (simp add: check_for_new_events_def c srt sample_state_sel sample_env_sel dispatch_def
        send_message_def sample_message_sel last_1000_def)
       (simp add: deposit_def)
qed

section \<open>Fixed-point amounts\<close>















end
